theory Spec2Isabelle
  imports Main
begin

section \<open>JavaScript values, thrown errors and the log\<close>

text \<open>
  The executor \<^verbatim>\<open>FlashbotsMEVExecutor\<close> of \<^verbatim>\<open>src/flashbots.ts\<close> talks to three
  collaborators (the JSON-RPC provider, the wallet and the Flashbots relay) and to a logger.
  Every call that can throw returns a sum \<open>js_error + 'a\<close> (\<open>Inl\<close> is the thrown value),
  so each \<^verbatim>\<open>try\<close>/\<^verbatim>\<open>catch\<close> of the source is a branch of the model.
\<close>

datatype js_error = TypeError string | Error string

text \<open>
  The relay's answers are duck-typed in the source (\<^verbatim>\<open>'error' in waitResponse\<close>,
  \<^verbatim>\<open>waitResponse.blockNumber\<close>), so they are kept as untyped JavaScript values;
  an object is the list of its own properties.
\<close>

datatype js_value =
    JUndefined
  | JNull
  | JBool bool
  | JNumber int
  | JString string
  | JObject "(string \<times> js_value) list"

datatype log_level = info | error

datatype log_meta = Thrown js_error | Value js_value

datatype log_entry = Log log_level string "log_meta option"

subsection \<open>Decimal digits\<close>

text \<open>Big integers (\<^verbatim>\<open>bigint\<close>) are unbounded: they are modelled by \<open>int\<close>.\<close>

definition digit_char :: "int \<Rightarrow> char" where
  "digit_char d = ''0123456789'' ! nat d"

definition is_digit :: "char \<Rightarrow> bool" where
  "is_digit c = (c \<in> set ''0123456789'')"

definition digit_value :: "char \<Rightarrow> int" where
  "digit_value c = of_char c - 48"

text \<open>\<^verbatim>\<open>n.toString()\<close> of a non-negative big integer, most significant digit first.\<close>

function digits_of :: "int \<Rightarrow> string \<Rightarrow> string" where
  "digits_of n acc =
     (if n < 10 then digit_char n # acc
      else digits_of (n div 10) (digit_char (n mod 10) # acc))"
  by pat_completeness auto
termination
  by (relation "measure (\<lambda>(n, acc). nat n)") auto

definition toString_bigint :: "int \<Rightarrow> string" where
  "toString_bigint i = (if i < 0 then ''-'' @ digits_of (- i) [] else digits_of i [])"

text \<open>\<^verbatim>\<open>BigInt(s)\<close> on a string of decimal digits (leading zeros allowed).\<close>

definition dec_value :: "string \<Rightarrow> int" where
  "dec_value s = fold (\<lambda>c a. 10 * a + digit_value c) s 0"

text \<open>
  Division of big integers (\<^verbatim>\<open>a / b\<close> on \<^verbatim>\<open>bigint\<close>) truncates towards zero. It throws
  for a zero divisor; the source only divides by the literals 2, 10 and 100.
\<close>

definition bigint_div :: "int \<Rightarrow> int \<Rightarrow> int" where
  "bigint_div a b = sgn a * sgn b * (\<bar>a\<bar> div \<bar>b\<bar>)"

text \<open>
  A big integer has no method \<^verbatim>\<open>gt\<close>: the call \<^verbatim>\<open>a.gt(b)\<close> on a big integer \<open>a\<close> evaluates
  its argument and then throws a TypeError, since \<^verbatim>\<open>a.gt\<close> is \<^verbatim>\<open>undefined\<close>.
\<close>

definition bigint_gt :: "int \<Rightarrow> int \<Rightarrow> js_error + bool" where
  "bigint_gt a b = Inl (TypeError ''tx.value.gt is not a function'')"

text \<open>The \<^verbatim>\<open>in\<close> operator throws a TypeError when its right operand is not an object.\<close>

fun js_in :: "string \<Rightarrow> js_value \<Rightarrow> js_error + bool" where
  "js_in k (JObject fields) = Inr (k \<in> set (map fst fields))"
| "js_in k v = Inl (TypeError ''Cannot use in operator on a non-object'')"

text \<open>
  Reading a property of an object gives \<^verbatim>\<open>undefined\<close> when the object lacks it. The source
  reads properties of the relay's answer only after \<^verbatim>\<open>in\<close> has accepted it as an object.
\<close>

fun js_get :: "js_value \<Rightarrow> string \<Rightarrow> js_value" where
  "js_get (JObject fields) k = (case map_of fields k of Some v \<Rightarrow> v | None \<Rightarrow> JUndefined)"
| "js_get v k = JUndefined"


text \<open>What a template literal \<^verbatim>\<open>${v}\<close> prints.\<close>

fun js_toString :: "js_value \<Rightarrow> string" where
  "js_toString JUndefined = ''undefined''"
| "js_toString JNull = ''null''"
| "js_toString (JBool b) = (if b then ''true'' else ''false'')"
| "js_toString (JNumber n) = toString_bigint n"
| "js_toString (JString s) = s"
| "js_toString (JObject fields) = ''[object Object]''"

text \<open>\<^verbatim>\<open>String.prototype.toLowerCase\<close> on the ASCII letters an address is written with.\<close>

definition toLowerCaseChar :: "char \<Rightarrow> char" where
  "toLowerCaseChar c =
     (case map_of (zip ''ABCDEFGHIJKLMNOPQRSTUVWXYZ'' ''abcdefghijklmnopqrstuvwxyz'') c of
        Some l \<Rightarrow> l
      | None \<Rightarrow> c)"

definition toLowerCase :: "string \<Rightarrow> string" where
  "toLowerCase s = map toLowerCaseChar s"

section \<open>The unit conversions of the ethers library\<close>

text \<open>
  \<^verbatim>\<open>ethers.parseUnits\<close>, \<^verbatim>\<open>ethers.parseEther\<close> and \<^verbatim>\<open>ethers.formatEther\<close> belong to the
  ethers library (version 6, whose names the source uses), not to the repository. They are
  modelled here after the library's fixed-point conversion: a value is a signed big integer
  of at most 512 bits, written with \<open>decimals\<close> digits after the point.
\<close>

definition fits_width :: "int \<Rightarrow> bool" where
  "fits_width v = (- (2 ^ 511) \<le> v \<and> v < 2 ^ 511)"

text \<open>Dropping leading zeros while more than one character is left.\<close>

fun trim_whole :: "string \<Rightarrow> string" where
  "trim_whole (c # c' # cs) = (if c = CHR ''0'' then trim_whole (c' # cs) else c # c' # cs)"
| "trim_whole cs = cs"

definition trim_decimal :: "string \<Rightarrow> string" where
  "trim_decimal s = rev (trim_whole (rev s))"

definition formatUnits :: "int \<Rightarrow> nat \<Rightarrow> js_error + string" where
  "formatUnits val decimals =
     (if \<not> fits_width val then Inl (Error ''overflow'')
      else
        let negative = (if val < 0 then ''-'' else '''');
            str = toString_bigint \<bar>val\<bar>
        in if decimals = 0 then Inr (negative @ str)
           else
             let padded = replicate (Suc decimals - length str) CHR ''0'' @ str;
                 index = length padded - decimals
             in Inr (negative @ trim_whole (take index padded) @ ''.''
                       @ trim_decimal (drop index padded)))"

definition formatEther :: "int \<Rightarrow> js_error + string" where
  "formatEther wei = formatUnits wei 18"

text \<open>
  The accepted strings are those of the pattern \<^verbatim>\<open>^(-?)([0-9]*)\.?([0-9]*)$\<close> with at
  least one digit; digits after the \<open>decimals\<close>-th place must all be zero.
\<close>

definition parseUnits :: "string \<Rightarrow> nat \<Rightarrow> js_error + int" where
  "parseUnits s decimals =
     (let negative = (case s of c # _ \<Rightarrow> c = CHR ''-'' | [] \<Rightarrow> False);
          body = (if negative then tl s else s);
          whole = takeWhile is_digit body;
          rest = dropWhile is_digit body;
          decimal = (case rest of c # cs \<Rightarrow> (if c = CHR ''.'' then cs else rest) | [] \<Rightarrow> [])
      in if \<not> list_all is_digit decimal \<or> length whole + length decimal = 0
         then Inl (Error ''invalid FixedNumber string value'')
         else if \<not> list_all (\<lambda>c. c = CHR ''0'') (drop decimals decimal)
         then Inl (Error ''too many decimals for format'')
         else
           let padded = take decimals (decimal @ replicate (decimals - length decimal) CHR ''0'');
               magnitude = dec_value (whole @ padded);
               val = (if negative then - magnitude else magnitude)
           in if fits_width val then Inr val else Inl (Error ''overflow''))"

definition parseEther :: "string \<Rightarrow> js_error + int" where
  "parseEther ether = parseUnits ether 18"

text \<open>The unit name \<^verbatim>\<open>"gwei"\<close> stands for 9 decimals.\<close>

definition gwei :: nat where
  "gwei = 9"

section \<open>Effects: the chain, the relay and the logger\<close>

text \<open>
  An asynchronous method of the executor is a computation over the state \<open>'w\<close> of the outside
  world (the node and the relay). It returns a value or throws, it writes log entries, and
  it leaves a new state of the world. A computation that touches nothing returns the world
  it was given.
\<close>

type_synonym ('w, 'a) eff = "'w \<Rightarrow> (js_error + 'a) \<times> log_entry list \<times> 'w"

definition ret :: "'a \<Rightarrow> ('w, 'a) eff" where
  "ret x = (\<lambda>w. (Inr x, [], w))"

definition and_then :: "('w, 'a) eff \<Rightarrow> ('a \<Rightarrow> ('w, 'b) eff) \<Rightarrow> ('w, 'b) eff" where
  "and_then m f =
     (\<lambda>w. case m w of
            (Inl e, logs, w') \<Rightarrow> (Inl e, logs, w')
          | (Inr x, logs, w') \<Rightarrow> (case f x w' of (r, logs', w'') \<Rightarrow> (r, logs @ logs', w'')))"

text \<open>\<^verbatim>\<open>try { m } catch (error) { handler }\<close>: the log written before the throw stays.\<close>

definition try_catch :: "('w, 'a) eff \<Rightarrow> (js_error \<Rightarrow> ('w, 'a) eff) \<Rightarrow> ('w, 'a) eff" where
  "try_catch m handler =
     (\<lambda>w. case m w of
            (Inr x, logs, w') \<Rightarrow> (Inr x, logs, w')
          | (Inl e, logs, w') \<Rightarrow>
              (case handler e w' of (r, logs', w'') \<Rightarrow> (r, logs @ logs', w'')))"

text \<open>\<^verbatim>\<open>await\<close> on a call to the node or the relay.\<close>

definition await :: "('w \<Rightarrow> (js_error + 'a) \<times> 'w) \<Rightarrow> ('w, 'a) eff" where
  "await call = (\<lambda>w. case call w of (r, w') \<Rightarrow> (r, [], w'))"

text \<open>A library call that computes a value or throws, without touching the world.\<close>

definition attempt :: "js_error + 'a \<Rightarrow> ('w, 'a) eff" where
  "attempt r = (\<lambda>w. (r, [], w))"

definition logger_info :: "string \<Rightarrow> ('w, unit) eff" where
  "logger_info message = (\<lambda>w. (Inr (), [Log info message None], w))"

definition logger_error :: "string \<Rightarrow> log_meta option \<Rightarrow> ('w, unit) eff" where
  "logger_error message meta = (\<lambda>w. (Inr (), [Log error message meta], w))"

section \<open>Data model\<close>

text \<open>
  Block numbers, nonces, gas limits and chain ids are JavaScript numbers that hold integers
  of the safe range, where adding 1 is exact; wei amounts are big integers. Both are \<open>int\<close>.
\<close>

text \<open>The pending transaction as the provider hands it over (\<^verbatim>\<open>ethers.TransactionResponse\<close>).\<close>

record TransactionResponse =
  tx_hash :: string
  tx_to :: "string option"
  tx_value :: int

datatype opportunity_type = sandwich | arbitrage | liquidation

record MEVOpportunity =
  type :: opportunity_type
  profit :: string
  transactions :: "TransactionResponse list"
  targetBlock :: int
  targetTxValue :: "int option"

text \<open>\<^verbatim>\<open>ethers.TransactionRequest\<close>, with the fields the source fills in.\<close>

record TransactionRequest =
  req_to :: string
  req_data :: string
  req_gasLimit :: int
  req_maxPriorityFeePerGas :: int
  req_maxFeePerGas :: int
  req_value :: int
  req_chainId :: int
  req_from :: string
  req_nonce :: int

text \<open>
  What \<^verbatim>\<open>wallet.signTransaction\<close> returns: the serialized transaction, which carries the
  fields of the request it was made from, and the signature the wallet computed.
\<close>

record SignedTransaction =
  request :: TransactionRequest
  signature :: string

record BundleRequest =
  transactions :: "SignedTransaction list"
  blockNumber :: int

text \<open>\<^verbatim>\<open>ethers.FeeData\<close>: each estimate is a big integer or \<^verbatim>\<open>null\<close>.\<close>

record FeeData =
  gasPrice :: "int option"
  maxFeePerGas :: "int option"
  maxPriorityFeePerGas :: "int option"

text \<open>
  The answer to \<^verbatim>\<open>eth_getBlockByNumber\<close>: \<^verbatim>\<open>null\<close> (\<open>None\<close>) or a block whose
  \<^verbatim>\<open>transactions\<close> property may be missing. The raw transactions are of an unknown type \<open>'raw\<close>
  until the provider's formatter has read them.
\<close>

record 'raw PendingBlock =
  pb_transactions :: "'raw list option"

text \<open>The collaborators the executor holds: \<^verbatim>\<open>provider\<close>, \<^verbatim>\<open>wallet\<close>, \<^verbatim>\<open>flashbotsProvider\<close>.\<close>

record ('w, 'raw) JsonRpcProvider =
  getBlockNumber :: "'w \<Rightarrow> (js_error + int) \<times> 'w"
  getTransactionCount :: "string \<Rightarrow> 'w \<Rightarrow> (js_error + int) \<times> 'w"
  getFeeData :: "'w \<Rightarrow> (js_error + FeeData) \<times> 'w"
  send :: "string \<Rightarrow> js_value list \<Rightarrow> 'w \<Rightarrow> (js_error + 'raw PendingBlock option) \<times> 'w"
  formatter_transactionResponse :: "'raw \<Rightarrow> js_error + TransactionResponse"

record Wallet =
  address :: string
  sign :: "TransactionRequest \<Rightarrow> js_error + string"

record ('w, 'sub) FlashbotsBundleProvider =
  sendBundle :: "SignedTransaction list \<Rightarrow> int \<Rightarrow> 'w \<Rightarrow> (js_error + 'sub) \<times> 'w"
  wait :: "'sub \<Rightarrow> 'w \<Rightarrow> (js_error + js_value) \<times> 'w"

record ('w, 'raw, 'sub) FlashbotsMEVExecutor =
  provider :: "('w, 'raw) JsonRpcProvider"
  flashbotsProvider :: "('w, 'sub) FlashbotsBundleProvider"
  wallet :: Wallet

definition signTransaction :: "Wallet \<Rightarrow> TransactionRequest \<Rightarrow> js_error + SignedTransaction" where
  "signTransaction w tx =
     (case sign w tx of
        Inl e \<Rightarrow> Inl e
      | Inr sig \<Rightarrow> Inr \<lparr>request = tx, signature = sig\<rparr>)"

section \<open>The executor\<close>

definition UNISWAP_V2_ROUTER :: string where
  "UNISWAP_V2_ROUTER = ''0x7a250d5630B4cF539739dF2C5dAcb4c659F2488D''"

subsection \<open>executeBundle\<close>

definition executeBundle ::
  "('w, 'raw, 'sub) FlashbotsMEVExecutor \<Rightarrow> BundleRequest \<Rightarrow> ('w, bool) eff" where
  "executeBundle this bundleRequest =
     try_catch
       (let targetBlock = blockNumber bundleRequest in
        and_then (logger_info (''Submitting bundle for block '' @ toString_bigint targetBlock @ ''...''))
          (\<lambda>_.
        and_then (await (sendBundle (flashbotsProvider this)
                           (BundleRequest.transactions bundleRequest) targetBlock))
          (\<lambda>submission.
        and_then (await (wait (flashbotsProvider this) submission))
          (\<lambda>waitResponse.
        and_then (attempt (js_in ''error'' waitResponse))
          (\<lambda>has_error.
        if has_error then
          and_then (logger_error ''Bundle failed to be included or reverted:''
                      (Some (Value (js_get waitResponse ''error''))))
            (\<lambda>_. ret False)
        else
          and_then (logger_info (''MEV Bundle successfully included in block ''
                                   @ js_toString (js_get waitResponse ''blockNumber'')))
            (\<lambda>_. ret True))))))
       (\<lambda>error.
          and_then (logger_error ''Bundle execution failed:'' (Some (Thrown error)))
            (\<lambda>_. ret False))"

subsection \<open>createSandwichBundle\<close>

text \<open>\<^verbatim>\<open>a || b\<close> on a fee estimate: \<^verbatim>\<open>null\<close> and zero are falsy, and \<open>b\<close> is evaluated only then.\<close>

definition or_else :: "int option \<Rightarrow> js_error + int \<Rightarrow> js_error + int" where
  "or_else a b = (case a of None \<Rightarrow> b | Some v \<Rightarrow> (if v = 0 then b else Inr v))"

definition placeholderData :: string where
  "placeholderData = ''0x12345678'' @ replicate 56 CHR ''0''"

definition frontRunTx :: "string \<Rightarrow> int \<Rightarrow> int \<Rightarrow> int \<Rightarrow> int \<Rightarrow> TransactionRequest" where
  "frontRunTx wallet_address maxPriorityFeePerGas' maxFeePerGasWithTip frontRunAmountIn initialNonce =
     \<lparr>req_to = UNISWAP_V2_ROUTER,
      req_data = placeholderData,
      req_gasLimit = 300000,
      req_maxPriorityFeePerGas = maxPriorityFeePerGas',
      req_maxFeePerGas = maxFeePerGasWithTip,
      req_value = frontRunAmountIn,
      req_chainId = 1,
      req_from = wallet_address,
      req_nonce = initialNonce\<rparr>"

definition backRunTx :: "string \<Rightarrow> int \<Rightarrow> int \<Rightarrow> int \<Rightarrow> TransactionRequest" where
  "backRunTx wallet_address maxPriorityFeePerGas' maxFeePerGasWithTip initialNonce =
     \<lparr>req_to = UNISWAP_V2_ROUTER,
      req_data = placeholderData,
      req_gasLimit = 300000,
      req_maxPriorityFeePerGas = maxPriorityFeePerGas',
      req_maxFeePerGas = maxFeePerGasWithTip,
      req_value = 0,
      req_chainId = 1,
      req_from = wallet_address,
      req_nonce = initialNonce + 1\<rparr>"

text \<open>
  The body of the \<^verbatim>\<open>try\<close> block; what it throws is caught by \<open>createSandwichBundle\<close>.
  The guard \<^verbatim>\<open>!opportunity.targetTxValue\<close> holds for an absent value and for the big
  integer zero, which are both falsy.
\<close>

definition createSandwichBundle_try ::
  "('w, 'raw, 'sub) FlashbotsMEVExecutor \<Rightarrow> MEVOpportunity \<Rightarrow> ('w, BundleRequest option) eff" where
  "createSandwichBundle_try this opportunity =
     (case targetTxValue opportunity of
        None \<Rightarrow>
          and_then (logger_error ''Cannot create bundle: Missing target transaction value.'' None)
            (\<lambda>_. ret None)
      | Some targetTxValue' \<Rightarrow>
        if targetTxValue' = 0 then
          and_then (logger_error ''Cannot create bundle: Missing target transaction value.'' None)
            (\<lambda>_. ret None)
        else
          and_then (await (getBlockNumber (provider this)))
            (\<lambda>currentBlock.
          let nextBlock = currentBlock + 1 in
          and_then (await (getTransactionCount (provider this) (address (wallet this))))
            (\<lambda>initialNonce.
          and_then (attempt (parseEther (profit opportunity)))
            (\<lambda>netProfit.
          let minerTip = bigint_div netProfit 2 in
          and_then (attempt (formatEther minerTip))
            (\<lambda>minerTipEther.
          and_then (logger_info (''Calculated Net Profit: '' @ profit opportunity
                                   @ '' ETH. Tipping: '' @ minerTipEther @ '' ETH.''))
            (\<lambda>_.
          let frontRunAmountIn = bigint_div targetTxValue' 10 in
          and_then (await (getFeeData (provider this)))
            (\<lambda>feeData.
          and_then (attempt (or_else (maxPriorityFeePerGas feeData) (parseUnits ''3'' gwei)))
            (\<lambda>maxPriorityFeePerGas'.
          and_then (attempt (or_else (maxFeePerGas feeData) (parseUnits ''50'' gwei)))
            (\<lambda>baseMaxFeePerGas.
          let maxFeePerGasWithTip = baseMaxFeePerGas + minerTip in
          and_then (attempt (signTransaction (wallet this)
                      (frontRunTx (address (wallet this)) maxPriorityFeePerGas'
                         maxFeePerGasWithTip frontRunAmountIn initialNonce)))
            (\<lambda>signedFrontRunTx.
          and_then (attempt (signTransaction (wallet this)
                      (backRunTx (address (wallet this)) maxPriorityFeePerGas'
                         maxFeePerGasWithTip initialNonce)))
            (\<lambda>signedBackRunTx.
          ret (Some \<lparr>BundleRequest.transactions = [signedFrontRunTx, signedBackRunTx],
                     blockNumber = nextBlock\<rparr>))))))))))))"

definition createSandwichBundle ::
  "('w, 'raw, 'sub) FlashbotsMEVExecutor \<Rightarrow> MEVOpportunity \<Rightarrow> ('w, BundleRequest option) eff" where
  "createSandwichBundle this opportunity =
     try_catch (createSandwichBundle_try this opportunity)
       (\<lambda>error.
          and_then (logger_error ''Failed to create dynamic sandwich bundle:'' (Some (Thrown error)))
            (\<lambda>_. ret None))"

subsection \<open>analyzeTransaction\<close>

definition dexAddresses :: "string list" where
  "dexAddresses =
     map toLowerCase [UNISWAP_V2_ROUTER, ''0xE592427A0AEce92De3Edee1F18E0157C05861564'']"

text \<open>
  The body of the \<^verbatim>\<open>try\<close> block, reached with a transaction whose recipient \<open>to\<close> is
  present and not the empty string. The value of a transaction is a big integer, which the
  source multiplies by \<^verbatim>\<open>BigInt(5)\<close>: \<^verbatim>\<open>tx.value &&\<close> is false for zero, and the call
  \<^verbatim>\<open>tx.value.gt(ethers.parseEther('0.05'))\<close> evaluates its argument and throws, as
  \<open>bigint_gt\<close> says. What follows the comparison is written down as the source has it.
  The block number for \<^verbatim>\<open>targetBlock\<close> is requested while the returned object is built,
  after the log line.
\<close>

definition analyzeTransaction_try ::
  "('w, 'raw, 'sub) FlashbotsMEVExecutor \<Rightarrow> TransactionResponse \<Rightarrow> string
     \<Rightarrow> ('w, MEVOpportunity option) eff" where
  "analyzeTransaction_try this tx to =
     (if toLowerCase to \<in> set dexAddresses \<and> tx_value tx \<noteq> 0 then
        and_then (attempt (parseEther ''0.05''))
          (\<lambda>threshold.
        and_then (attempt (bigint_gt (tx_value tx) threshold))
          (\<lambda>exceeds.
        if exceeds then
          let targetValue = tx_value tx;
              arbitraryProfitBN = bigint_div (targetValue * 5) 100 in
          and_then (attempt (formatEther arbitraryProfitBN))
            (\<lambda>arbitraryProfit.
          and_then (logger_info (''Potential Sandwich found for Tx: '' @ tx_hash tx
                                   @ '', Calculated Profit: '' @ arbitraryProfit @ '' ETH''))
            (\<lambda>_.
          and_then (await (getBlockNumber (provider this)))
            (\<lambda>currentBlock.
          ret (Some \<lparr>type = sandwich,
                     profit = arbitraryProfit,
                     MEVOpportunity.transactions = [tx],
                     targetBlock = currentBlock + 1,
                     targetTxValue = Some targetValue\<rparr>))))
        else ret None))
      else ret None)"

definition analyzeTransaction ::
  "('w, 'raw, 'sub) FlashbotsMEVExecutor \<Rightarrow> TransactionResponse option
     \<Rightarrow> ('w, MEVOpportunity option) eff" where
  "analyzeTransaction this tx' =
     (case tx' of
        None \<Rightarrow> ret None
      | Some tx \<Rightarrow>
        (case tx_to tx of
           None \<Rightarrow> ret None
         | Some to \<Rightarrow>
           if to = [] then ret None
           else
             try_catch (analyzeTransaction_try this tx to)
               (\<lambda>error.
                  and_then (logger_error ''Transaction analysis failed:'' (Some (Thrown error)))
                    (\<lambda>_. ret None))))"

subsection \<open>scanMEVOpportunities\<close>

text \<open>
  The \<^verbatim>\<open>for\<close> loop over the snapshot. Each raw transaction is first read by
  \<^verbatim>\<open>this.provider.formatter.transactionResponse\<close>, which may throw, and then analyzed. The
  array \<^verbatim>\<open>opportunities\<close> is declared outside the \<^verbatim>\<open>try\<close> block, so what was pushed
  before a throw is still returned: the loop gives back the array together with the error
  that ended it, if any.
\<close>

fun scan_loop ::
  "('w, 'raw, 'sub) FlashbotsMEVExecutor \<Rightarrow> 'raw list \<Rightarrow> MEVOpportunity list
     \<Rightarrow> 'w \<Rightarrow> (js_error option \<times> MEVOpportunity list) \<times> log_entry list \<times> 'w" where
  "scan_loop this [] opportunities w = ((None, opportunities), [], w)"
| "scan_loop this (txData # rest) opportunities w =
     (case formatter_transactionResponse (provider this) txData of
        Inl e \<Rightarrow> ((Some e, opportunities), [], w)
      | Inr tx \<Rightarrow>
        (case analyzeTransaction this (Some tx) w of
           (Inl e, logs, w') \<Rightarrow> ((Some e, opportunities), logs, w')
         | (Inr opportunity, logs, w') \<Rightarrow>
           (case scan_loop this rest
                   (case opportunity of
                      Some found \<Rightarrow> opportunities @ [found]
                    | None \<Rightarrow> opportunities) w' of
              (r, logs', w'') \<Rightarrow> (r, logs @ logs', w''))))"

definition scanMEVOpportunities ::
  "('w, 'raw, 'sub) FlashbotsMEVExecutor \<Rightarrow> ('w, MEVOpportunity list) eff" where
  "scanMEVOpportunities this =
     (\<lambda>w. case send (provider this) ''eth_getBlockByNumber'' [JString ''pending'', JBool True] w of
            (Inl e, w') \<Rightarrow> (Inr [], [Log error ''MEV scanning failed:'' (Some (Thrown e))], w')
          | (Inr pendingBlock, w') \<Rightarrow>
            (case pendingBlock of
               None \<Rightarrow> (Inr [], [], w')
             | Some block \<Rightarrow>
               (case pb_transactions block of
                  None \<Rightarrow> (Inr [], [], w')
                | Some txs \<Rightarrow>
                  (case scan_loop this (take 10 txs) [] w' of
                     ((None, opportunities), logs, w'') \<Rightarrow> (Inr opportunities, logs, w'')
                   | ((Some e, opportunities), logs, w'') \<Rightarrow>
                       (Inr opportunities,
                        logs @ [Log error ''MEV scanning failed:'' (Some (Thrown e))], w'')))))"

section \<open>A concrete node, wallet and relay\<close>

text \<open>
  The state of this world is the number of requests served so far. The node holds three
  pending transactions: 1.0 ether to the Uniswap V2 router, 0.04 ether to the same router
  and 2.0 ether to the Uniswap V3 router (written in lower case). It reports block 100,
  nonce 7 for every account and a suggested priority fee of 1 gwei.
\<close>

definition demo_tx_v2 :: TransactionResponse where
  "demo_tx_v2 =
     \<lparr>tx_hash = ''0xa1'', tx_to = Some ''0x7a250d5630B4cF539739dF2C5dAcb4c659F2488D'',
      tx_value = 1000000000000000000\<rparr>"

definition demo_tx_small :: TransactionResponse where
  "demo_tx_small =
     \<lparr>tx_hash = ''0xb2'', tx_to = Some ''0x7a250d5630B4cF539739dF2C5dAcb4c659F2488D'',
      tx_value = 40000000000000000\<rparr>"

definition demo_tx_v3 :: TransactionResponse where
  "demo_tx_v3 =
     \<lparr>tx_hash = ''0xc3'', tx_to = Some ''0xe592427a0aece92de3edee1f18e0157c05861564'',
      tx_value = 2000000000000000000\<rparr>"

definition demo_tx_other :: TransactionResponse where
  "demo_tx_other =
     \<lparr>tx_hash = ''0xd4'', tx_to = Some ''0x00000000219ab540356cBB839Cbe05303d7705Fa'',
      tx_value = 32000000000000000000\<rparr>"

definition demo_tx_malformed :: TransactionResponse where
  "demo_tx_malformed =
     \<lparr>tx_hash = [], tx_to = Some ''0x7a250d5630B4cF539739dF2C5dAcb4c659F2488D'',
      tx_value = 3000000000000000000\<rparr>"

definition demo_feeData :: FeeData where
  "demo_feeData =
     \<lparr>gasPrice = Some 20000000000, maxFeePerGas = Some 40000000000,
      maxPriorityFeePerGas = Some 1000000000\<rparr>"

definition demo_provider :: "(nat, TransactionResponse) JsonRpcProvider" where
  "demo_provider =
     \<lparr>getBlockNumber = (\<lambda>w. (Inr 100, Suc w)),
      getTransactionCount = (\<lambda>account w. (Inr 7, Suc w)),
      getFeeData = (\<lambda>w. (Inr demo_feeData, Suc w)),
      send = (\<lambda>method params w.
                (Inr (Some \<lparr>pb_transactions = Some [demo_tx_v2, demo_tx_small, demo_tx_v3]\<rparr>),
                 Suc w)),
      formatter_transactionResponse = Inr\<rparr>"

text \<open>
  The same node with a snapshot whose first raw transaction has no hash, and a formatter
  that throws on such a transaction.
\<close>

definition malformed_first_provider :: "(nat, TransactionResponse) JsonRpcProvider" where
  "malformed_first_provider =
     demo_provider
       \<lparr>send := (\<lambda>method params w.
                   (Inr (Some \<lparr>pb_transactions = Some [demo_tx_malformed, demo_tx_v2]\<rparr>),
                    Suc w)),
        formatter_transactionResponse :=
          (\<lambda>raw. if tx_hash raw = [] then Inl (Error ''invalid hash'') else Inr raw)\<rparr>"

definition demo_wallet :: Wallet where
  "demo_wallet =
     \<lparr>address = ''0x00000000000000000000000000000000000000Aa'',
      sign = (\<lambda>tx. Inr (''signed:'' @ toString_bigint (req_nonce tx)))\<rparr>"

text \<open>A wallet that refuses to sign a transaction without value, as the back-run is.\<close>

definition refusing_wallet :: Wallet where
  "refusing_wallet =
     \<lparr>address = ''0x00000000000000000000000000000000000000Aa'',
      sign = (\<lambda>tx. if req_value tx = 0 then Inl (Error ''signing refused'')
                    else Inr (''signed:'' @ toString_bigint (req_nonce tx)))\<rparr>"

text \<open>
  The relay of the Flashbots library answers the inclusion wait with a number, a
  \<^verbatim>\<open>FlashbotsBundleResolution\<close>: 0 for \<^verbatim>\<open>BundleIncluded\<close>, 1 for
  \<^verbatim>\<open>BlockPassedWithoutInclusion\<close>, 2 for \<^verbatim>\<open>AccountNonceTooHigh\<close>.
\<close>

definition BundleIncluded :: js_value where
  "BundleIncluded = JNumber 0"

definition BlockPassedWithoutInclusion :: js_value where
  "BlockPassedWithoutInclusion = JNumber 1"

definition demo_relay :: "(nat, unit) FlashbotsBundleProvider" where
  "demo_relay =
     \<lparr>sendBundle = (\<lambda>txs target w. (Inr (), Suc w)),
      wait = (\<lambda>submission w. (Inr BundleIncluded, Suc w))\<rparr>"

definition rejecting_relay :: "(nat, unit) FlashbotsBundleProvider" where
  "rejecting_relay =
     \<lparr>sendBundle = (\<lambda>txs target w. (Inr (), Suc w)),
      wait = (\<lambda>submission w. (Inr BlockPassedWithoutInclusion, Suc w))\<rparr>"

definition demo_executor :: "(nat, TransactionResponse, unit) FlashbotsMEVExecutor" where
  "demo_executor =
     \<lparr>provider = demo_provider, flashbotsProvider = demo_relay, wallet = demo_wallet\<rparr>"

definition rejecting_executor :: "(nat, TransactionResponse, unit) FlashbotsMEVExecutor" where
  "rejecting_executor =
     \<lparr>provider = demo_provider, flashbotsProvider = rejecting_relay, wallet = demo_wallet\<rparr>"

definition malformed_first_executor :: "(nat, TransactionResponse, unit) FlashbotsMEVExecutor" where
  "malformed_first_executor =
     \<lparr>provider = malformed_first_provider, flashbotsProvider = demo_relay,
      wallet = demo_wallet\<rparr>"

definition refusing_executor :: "(nat, TransactionResponse, unit) FlashbotsMEVExecutor" where
  "refusing_executor =
     \<lparr>provider = demo_provider, flashbotsProvider = demo_relay, wallet = refusing_wallet\<rparr>"

text \<open>
  An opportunity for the 1.0 ether transaction, made by hand as the estimator is written to
  make it (a profit of 5 percent of the value), and the bundle built from it.
\<close>

definition demo_opportunity :: MEVOpportunity where
  "demo_opportunity =
     \<lparr>type = sandwich, profit = ''0.05'', MEVOpportunity.transactions = [demo_tx_v2],
      targetBlock = 101, targetTxValue = Some 1000000000000000000\<rparr>"

definition demo_opportunity_v3 :: MEVOpportunity where
  "demo_opportunity_v3 =
     \<lparr>type = sandwich, profit = ''0.1'', MEVOpportunity.transactions = [demo_tx_v3],
      targetBlock = 101, targetTxValue = Some 2000000000000000000\<rparr>"

text \<open>An opportunity of another kind, made by hand, that lacks the target's value.\<close>

definition unsized_opportunity :: MEVOpportunity where
  "unsized_opportunity =
     \<lparr>type = arbitrage, profit = ''0.05'', MEVOpportunity.transactions = [],
      targetBlock = 101, targetTxValue = None\<rparr>"

definition demo_front :: SignedTransaction where
  "demo_front =
     \<lparr>request =
        \<lparr>req_to = ''0x7a250d5630B4cF539739dF2C5dAcb4c659F2488D'',
         req_data = ''0x1234567800000000000000000000000000000000000000000000000000000000'',
         req_gasLimit = 300000,
         req_maxPriorityFeePerGas = 1000000000,
         req_maxFeePerGas = 25000040000000000,
         req_value = 100000000000000000,
         req_chainId = 1,
         req_from = ''0x00000000000000000000000000000000000000Aa'',
         req_nonce = 7\<rparr>,
      signature = ''signed:7''\<rparr>"

definition demo_back :: SignedTransaction where
  "demo_back =
     \<lparr>request =
        \<lparr>req_to = ''0x7a250d5630B4cF539739dF2C5dAcb4c659F2488D'',
         req_data = ''0x1234567800000000000000000000000000000000000000000000000000000000'',
         req_gasLimit = 300000,
         req_maxPriorityFeePerGas = 1000000000,
         req_maxFeePerGas = 25000040000000000,
         req_value = 0,
         req_chainId = 1,
         req_from = ''0x00000000000000000000000000000000000000Aa'',
         req_nonce = 8\<rparr>,
      signature = ''signed:8''\<rparr>"

definition demo_bundle :: BundleRequest where
  "demo_bundle = \<lparr>BundleRequest.transactions = [demo_front, demo_back], blockNumber = 101\<rparr>"

text \<open>The bundle built from the opportunity for the 2.0 ether transaction.\<close>

definition demo_bundle_v3 :: BundleRequest where
  "demo_bundle_v3 =
     \<lparr>BundleRequest.transactions =
        [\<lparr>request =
            \<lparr>req_to = ''0x7a250d5630B4cF539739dF2C5dAcb4c659F2488D'',
             req_data = ''0x1234567800000000000000000000000000000000000000000000000000000000'',
             req_gasLimit = 300000,
             req_maxPriorityFeePerGas = 1000000000,
             req_maxFeePerGas = 50000040000000000,
             req_value = 200000000000000000,
             req_chainId = 1,
             req_from = ''0x00000000000000000000000000000000000000Aa'',
             req_nonce = 7\<rparr>,
          signature = ''signed:7''\<rparr>,
         \<lparr>request =
            \<lparr>req_to = ''0x7a250d5630B4cF539739dF2C5dAcb4c659F2488D'',
             req_data = ''0x1234567800000000000000000000000000000000000000000000000000000000'',
             req_gasLimit = 300000,
             req_maxPriorityFeePerGas = 1000000000,
             req_maxFeePerGas = 50000040000000000,
             req_value = 0,
             req_chainId = 1,
             req_from = ''0x00000000000000000000000000000000000000Aa'',
             req_nonce = 8\<rparr>,
          signature = ''signed:8''\<rparr>],
      blockNumber = 101\<rparr>"

section \<open>Properties of the decimal conversions\<close>

lemma small_int_cases: "0 \<le> (d::int) \<Longrightarrow> d < 10 \<Longrightarrow>
  d = 0 \<or> d = 1 \<or> d = 2 \<or> d = 3 \<or> d = 4 \<or> d = 5 \<or> d = 6 \<or> d = 7 \<or> d = 8 \<or> d = 9"
  by arith

lemma is_digit_digit_char: "0 \<le> d \<Longrightarrow> d < 10 \<Longrightarrow> is_digit (digit_char d)"
  using small_int_cases [of d] by (auto simp: is_digit_def digit_char_def)

lemma digit_value_digit_char: "0 \<le> d \<Longrightarrow> d < 10 \<Longrightarrow> digit_value (digit_char d) = d"
  using small_int_cases [of d] by (auto simp: digit_value_def digit_char_def)

lemma is_digit_simps [simp]: "\<not> is_digit CHR ''.''" "\<not> is_digit CHR ''-''" "is_digit CHR ''0''"
  by (simp_all add: is_digit_def)

lemma digit_value_zero [simp]: "digit_value CHR ''0'' = 0"
  by (simp add: digit_value_def)

declare digits_of.simps [simp del]

lemma digits_of_acc: "0 \<le> n \<Longrightarrow> digits_of n acc = digits_of n [] @ acc"
proof (induction "nat n" arbitrary: n acc rule: less_induct)
  case less
  show ?case
  proof (cases "n < 10")
    case True
    then show ?thesis by (simp add: digits_of.simps [of n])
  next
    case False
    with less.prems have nn: "0 \<le> n div 10" and lt: "nat (n div 10) < nat n"
      by auto
    have "digits_of n acc = digits_of (n div 10) (digit_char (n mod 10) # acc)"
      using False by (simp add: digits_of.simps [of n acc])
    also have "\<dots> = digits_of (n div 10) [] @ digit_char (n mod 10) # acc"
      by (rule less.hyps [OF lt nn])
    also have "\<dots> = (digits_of (n div 10) [] @ [digit_char (n mod 10)]) @ acc"
      by simp
    also have "digits_of (n div 10) [] @ [digit_char (n mod 10)] = digits_of n []"
      using False less.hyps [OF lt nn, of "[digit_char (n mod 10)]"]
      by (simp add: digits_of.simps [of n "[]"])
    finally show ?thesis .
  qed
qed

lemma digits_of_unfold:
  "10 \<le> n \<Longrightarrow> digits_of n [] = digits_of (n div 10) [] @ [digit_char (n mod 10)]"
  using digits_of_acc [of "n div 10" "[digit_char (n mod 10)]"]
  by (simp add: digits_of.simps [of n "[]"])

lemma digits_of_digits: "0 \<le> n \<Longrightarrow> list_all is_digit (digits_of n [])"
proof (induction "nat n" arbitrary: n rule: less_induct)
  case less
  show ?case
  proof (cases "n < 10")
    case True
    with less.prems show ?thesis
      by (simp add: digits_of.simps [of n] is_digit_digit_char)
  next
    case False
    with less.prems have "0 \<le> n div 10" "nat (n div 10) < nat n" by auto
    then have "list_all is_digit (digits_of (n div 10) [])" using less.hyps by blast
    with False show ?thesis
      by (simp add: digits_of_unfold is_digit_digit_char)
  qed
qed

lemma digits_of_not_Nil [simp]: "digits_of n acc \<noteq> []"
proof (induction n acc rule: digits_of.induct)
  case (1 n acc)
  then show ?case
    by (cases "n < 10") (simp_all add: digits_of.simps [of n acc])
qed

lemma dec_value_snoc: "dec_value (s @ [c]) = 10 * dec_value s + digit_value c"
  by (simp add: dec_value_def)

lemma dec_value_Nil [simp]: "dec_value [] = 0"
  by (simp add: dec_value_def)

lemma dec_value_append: "dec_value (xs @ ys) = dec_value xs * 10 ^ length ys + dec_value ys"
proof (induction ys rule: rev_induct)
  case Nil
  then show ?case by simp
next
  case (snoc y ys)
  have "dec_value (xs @ ys @ [y]) = 10 * dec_value (xs @ ys) + digit_value y"
    using dec_value_snoc [of "xs @ ys" y] by simp
  then show ?case
    by (simp add: snoc.IH dec_value_snoc algebra_simps)
qed

lemma dec_value_zeros [simp]: "dec_value (replicate k CHR ''0'') = 0"
  by (induction k) (simp_all add: dec_value_def)

lemma dec_value_digits_of: "0 \<le> n \<Longrightarrow> dec_value (digits_of n []) = n"
proof (induction "nat n" arbitrary: n rule: less_induct)
  case less
  show ?case
  proof (cases "n < 10")
    case True
    with less.prems show ?thesis
      by (simp add: digits_of.simps [of n] dec_value_def digit_value_digit_char)
  next
    case False
    with less.prems have "0 \<le> n div 10" "nat (n div 10) < nat n" by auto
    then have "dec_value (digits_of (n div 10) []) = n div 10" using less.hyps by blast
    with False show ?thesis
      by (simp add: digits_of_unfold dec_value_snoc digit_value_digit_char)
  qed
qed

lemma trim_whole_zeros: "\<exists>k. s = replicate k CHR ''0'' @ trim_whole s"
proof (induction s rule: trim_whole.induct)
  case (1 c c' cs)
  show ?case
  proof (cases "c = CHR ''0''")
    case True
    with 1 obtain k where "c' # cs = replicate k CHR ''0'' @ trim_whole (c' # cs)" by auto
    then have "c # c' # cs = replicate (Suc k) CHR ''0'' @ trim_whole (c # c' # cs)"
      using True by simp
    then show ?thesis by blast
  next
    case False
    then have "c # c' # cs = replicate 0 CHR ''0'' @ trim_whole (c # c' # cs)" by simp
    then show ?thesis by blast
  qed
qed (auto intro: exI [of _ 0])

lemma trim_whole_not_Nil [simp]: "trim_whole s = [] \<longleftrightarrow> s = []"
  by (induction s rule: trim_whole.induct) auto

lemma trim_whole_digits: "list_all is_digit s \<Longrightarrow> list_all is_digit (trim_whole s)"
  by (induction s rule: trim_whole.induct) auto

lemma dec_value_trim_whole [simp]: "dec_value (trim_whole s) = dec_value s"
proof -
  obtain k where "s = replicate k CHR ''0'' @ trim_whole s"
    using trim_whole_zeros by blast
  then have "dec_value s = dec_value (replicate k CHR ''0'' @ trim_whole s)" by simp
  then show ?thesis by (simp add: dec_value_append)
qed

lemma trim_decimal_zeros: "\<exists>k. s = trim_decimal s @ replicate k CHR ''0''"
proof -
  obtain k where "rev s = replicate k CHR ''0'' @ trim_whole (rev s)"
    using trim_whole_zeros by blast
  then have "rev (rev s) = rev (replicate k CHR ''0'' @ trim_whole (rev s))" by simp
  then have "s = trim_decimal s @ replicate k CHR ''0''"
    by (simp add: trim_decimal_def)
  then show ?thesis ..
qed

lemma trim_decimal_not_Nil [simp]: "trim_decimal s = [] \<longleftrightarrow> s = []"
  by (simp add: trim_decimal_def)

lemma trim_decimal_digits: "list_all is_digit s \<Longrightarrow> list_all is_digit (trim_decimal s)"
  using trim_whole_digits [of "rev s"] by (simp add: trim_decimal_def list_all_iff)

lemma trim_decimal_pad:
  "trim_decimal s @ replicate (length s - length (trim_decimal s)) CHR ''0'' = s"
proof -
  obtain k where k: "s = trim_decimal s @ replicate k CHR ''0''"
    using trim_decimal_zeros by blast
  then have "length s = length (trim_decimal s) + k"
    by (metis length_append length_replicate)
  then have "length s - length (trim_decimal s) = k" by simp
  with k show ?thesis by simp
qed

lemma trim_decimal_length: "length (trim_decimal s) \<le> length s"
  using trim_decimal_pad [of s]
  by (metis le_add1 length_append)

lemma takeWhile_stop: "list_all P xs \<Longrightarrow> \<not> P y \<Longrightarrow> takeWhile P (xs @ y # ys) = xs"
  by (induction xs) auto

lemma dropWhile_stop: "list_all P xs \<Longrightarrow> \<not> P y \<Longrightarrow> dropWhile P (xs @ y # ys) = y # ys"
  by (induction xs) auto

lemma parseUnits_plain:
  assumes W: "list_all is_digit W" "W \<noteq> []"
    and F: "list_all is_digit F" "length F \<le> d"
    and fits: "fits_width (dec_value (W @ F @ replicate (d - length F) CHR ''0''))"
  shows "parseUnits (W @ CHR ''.'' # F) d = Inr (dec_value (W @ F @ replicate (d - length F) CHR ''0''))"
proof -
  from W obtain t ts where t: "W = t # ts" "is_digit t"
    by (cases W) auto
  then have "t \<noteq> CHR ''-''" by auto
  then have neg: "(case W @ CHR ''.'' # F of c # _ \<Rightarrow> c = CHR ''-'' | [] \<Rightarrow> False) = False"
    using t by simp
  have tw: "takeWhile is_digit (W @ CHR ''.'' # F) = W"
    and dw: "dropWhile is_digit (W @ CHR ''.'' # F) = CHR ''.'' # F"
    using W by (simp_all add: takeWhile_stop dropWhile_stop)
  show ?thesis
    unfolding parseUnits_def neg Let_def
    using W F fits by (simp add: tw dw)
qed

lemma parseUnits_minus:
  assumes W: "list_all is_digit W" "W \<noteq> []"
    and F: "list_all is_digit F" "length F \<le> d"
    and fits: "fits_width (- dec_value (W @ F @ replicate (d - length F) CHR ''0''))"
  shows "parseUnits (CHR ''-'' # W @ CHR ''.'' # F) d
           = Inr (- dec_value (W @ F @ replicate (d - length F) CHR ''0''))"
proof -
  have tw: "takeWhile is_digit (W @ CHR ''.'' # F) = W"
    and dw: "dropWhile is_digit (W @ CHR ''.'' # F) = CHR ''.'' # F"
    using W by (simp_all add: takeWhile_stop dropWhile_stop)
  show ?thesis
    unfolding parseUnits_def Let_def
    using W F fits by (simp add: tw dw)
qed

lemma formatUnits_shape:
  assumes "fits_width v" "0 < d"
  shows "\<exists>W F. list_all is_digit W \<and> W \<noteq> [] \<and> list_all is_digit F \<and> length F \<le> d
           \<and> dec_value (W @ F @ replicate (d - length F) CHR ''0'') = \<bar>v\<bar>
           \<and> formatUnits v d = Inr ((if v < 0 then ''-'' else []) @ W @ CHR ''.'' # F)"
proof -
  define str where "str = digits_of \<bar>v\<bar> []"
  define padded where "padded = replicate (Suc d - length str) CHR ''0'' @ str"
  define idx where "idx = length padded - d"
  define W where "W = take idx padded"
  define F where "F = drop idx padded"
  have str: "list_all is_digit str" "dec_value str = \<bar>v\<bar>"
    by (simp_all add: str_def digits_of_digits dec_value_digits_of)
  have padded: "list_all is_digit padded" "dec_value padded = \<bar>v\<bar>" "d < length padded"
    using str by (auto simp: padded_def dec_value_append list_all_iff)
  have WF: "padded = W @ F" by (simp add: W_def F_def)
  have lenF: "length F = d" using padded(3) by (simp add: F_def idx_def)
  have W_ne: "W \<noteq> []" using padded(3) by (auto simp: W_def idx_def)
  have digs: "list_all is_digit W" "list_all is_digit F"
    using padded(1) unfolding WF by simp_all
  have toS: "toString_bigint \<bar>v\<bar> = str"
    by (simp add: toString_bigint_def str_def)
  have fmt: "formatUnits v d = Inr ((if v < 0 then ''-'' else []) @ trim_whole W @ CHR ''.'' # trim_decimal F)"
    unfolding W_def F_def idx_def padded_def str_def
    using assms by (simp add: formatUnits_def toString_bigint_def Let_def)
  have "dec_value (trim_whole W @ trim_decimal F @ replicate (d - length (trim_decimal F)) CHR ''0'')
          = dec_value (trim_whole W @ F)"
    using trim_decimal_pad [of F] lenF by simp
  also have "\<dots> = dec_value (W @ F)"
    by (simp add: dec_value_append)
  finally have val: "dec_value (trim_whole W @ trim_decimal F
                        @ replicate (d - length (trim_decimal F)) CHR ''0'') = \<bar>v\<bar>"
    using padded(2) WF by simp
  have "list_all is_digit (trim_whole W)" "trim_whole W \<noteq> []"
    "list_all is_digit (trim_decimal F)" "length (trim_decimal F) \<le> d"
    using digs W_ne trim_decimal_length [of F] lenF
    by (simp_all add: trim_whole_digits trim_decimal_digits)
  with val fmt show ?thesis by blast
qed

lemma parseUnits_formatUnits:
  assumes "fits_width v" "0 < d"
  shows "\<exists>s. formatUnits v d = Inr s \<and> parseUnits s d = Inr v"
proof -
  from formatUnits_shape [OF assms] obtain W F where
    W: "list_all is_digit W" "W \<noteq> []" and F: "list_all is_digit F" "length F \<le> d"
    and val: "dec_value (W @ F @ replicate (d - length F) CHR ''0'') = \<bar>v\<bar>"
    and fmt: "formatUnits v d = Inr ((if v < 0 then ''-'' else []) @ W @ CHR ''.'' # F)"
    by blast
  show ?thesis
  proof (cases "v < 0")
    case True
    then have "fits_width (- dec_value (W @ F @ replicate (d - length F) CHR ''0''))"
      using assms(1) val by simp
    from parseUnits_minus [OF W F this] True val fmt show ?thesis by simp
  next
    case False
    then have "fits_width (dec_value (W @ F @ replicate (d - length F) CHR ''0''))"
      using assms(1) val by simp
    from parseUnits_plain [OF W F this] False val fmt show ?thesis by simp
  qed
qed

lemma parseEther_formatEther:
  "fits_width v \<Longrightarrow> \<exists>s. formatEther v = Inr s \<and> parseEther s = Inr v"
  using parseUnits_formatUnits [of v 18] by (simp add: formatEther_def parseEther_def)

lemma parseUnits_fits: "parseUnits s d = Inr v \<Longrightarrow> fits_width v"
  by (auto simp: parseUnits_def Let_def split: if_splits)

lemma formatUnits_total: "fits_width v \<Longrightarrow> \<exists>s. formatUnits v d = Inr s"
  by (simp add: formatUnits_def Let_def)

lemma parseEther_threshold [simp]: "parseEther ''0.05'' = Inr 50000000000000000"
  by code_simp

lemma parseUnits_3_gwei [simp]: "parseUnits ''3'' gwei = Inr 3000000000"
  by code_simp

lemma parseUnits_50_gwei [simp]: "parseUnits ''50'' gwei = Inr 50000000000"
  by code_simp

lemma dexAddresses_eq:
  "dexAddresses = [''0x7a250d5630b4cf539739df2c5dacb4c659f2488d'',
                   ''0xe592427a0aece92de3edee1f18e0157c05861564'']"
  by (simp add: dexAddresses_def UNISWAP_V2_ROUTER_def toLowerCase_def toLowerCaseChar_def)

lemma placeholderData_eq:
  "placeholderData = ''0x1234567800000000000000000000000000000000000000000000000000000000''"
  by code_simp

lemma demo_build:
  "createSandwichBundle demo_executor demo_opportunity 5 =
     (Inr (Some demo_bundle),
      [Log info ''Calculated Net Profit: 0.05 ETH. Tipping: 0.025 ETH.'' None], 8)"
  by code_simp

section \<open>What the executor does, step by step\<close>

lemmas eff_defs = and_then_def try_catch_def await_def attempt_def logger_info_def
  logger_error_def ret_def

lemma createSandwichBundle_SomeD:
  assumes "createSandwichBundle this opp w = (Inr (Some b), logs, w')"
  shows "\<exists>v h w1 n w2 netProfit tipEther fd prio base sigF sigB.
      targetTxValue opp = Some v \<and> v \<noteq> 0
    \<and> getBlockNumber (provider this) w = (Inr h, w1)
    \<and> getTransactionCount (provider this) (address (wallet this)) w1 = (Inr n, w2)
    \<and> parseEther (profit opp) = Inr netProfit
    \<and> formatEther (bigint_div netProfit 2) = Inr tipEther
    \<and> getFeeData (provider this) w2 = (Inr fd, w')
    \<and> or_else (maxPriorityFeePerGas fd) (parseUnits ''3'' gwei) = Inr prio
    \<and> or_else (maxFeePerGas fd) (parseUnits ''50'' gwei) = Inr base
    \<and> sign (wallet this) (frontRunTx (address (wallet this)) prio (base + bigint_div netProfit 2)
           (bigint_div v 10) n) = Inr sigF
    \<and> sign (wallet this) (backRunTx (address (wallet this)) prio (base + bigint_div netProfit 2) n)
           = Inr sigB
    \<and> b = \<lparr>BundleRequest.transactions =
             [\<lparr>request = frontRunTx (address (wallet this)) prio (base + bigint_div netProfit 2)
                            (bigint_div v 10) n, signature = sigF\<rparr>,
              \<lparr>request = backRunTx (address (wallet this)) prio (base + bigint_div netProfit 2) n,
               signature = sigB\<rparr>],
            blockNumber = h + 1\<rparr>
    \<and> logs = [Log info (''Calculated Net Profit: '' @ profit opp @ '' ETH. Tipping: ''
                          @ tipEther @ '' ETH.'') None]"
  using assms
  by (auto simp: createSandwichBundle_def createSandwichBundle_try_def eff_defs Let_def
      signTransaction_def
      split: prod.splits sum.splits option.splits if_splits)

lemma bigint_div_nonneg: "0 \<le> a \<Longrightarrow> 0 < b \<Longrightarrow> bigint_div a b = a div b"
  by (cases "a = 0") (simp_all add: bigint_div_def)

lemma bigint_div_abs_le: "\<bar>bigint_div a 2\<bar> \<le> \<bar>a\<bar>"
proof -
  have "\<bar>bigint_div a 2\<bar> = \<bar>sgn a\<bar> * (\<bar>a\<bar> div 2)"
    by (simp add: bigint_div_def abs_mult)
  also have "\<dots> \<le> \<bar>a\<bar> div 2"
    by (cases "a = 0") (simp_all add: abs_sgn_eq)
  also have "\<dots> \<le> \<bar>a\<bar>"
    by linarith
  finally show ?thesis .
qed

lemma fits_width_half: "fits_width v \<Longrightarrow> fits_width (bigint_div v 2)"
proof -
  assume f: "fits_width v"
  have "\<bar>bigint_div v 2\<bar> \<le> \<bar>v\<bar>" by (rule bigint_div_abs_le)
  moreover have "v = - (2 ^ 511) \<Longrightarrow> bigint_div v 2 = - (2 ^ 510)"
    by (simp add: bigint_div_def)
  ultimately show ?thesis using f
    unfolding fits_width_def by (cases "v = - (2 ^ 511)") auto
qed

text \<open>The tip of a profit that \<open>parseEther\<close> has read can always be printed for the log line.\<close>

lemma tip_is_printable: "parseEther s = Inr p \<Longrightarrow> \<exists>t. formatEther (bigint_div p 2) = Inr t"
  unfolding parseEther_def formatEther_def
  by (blast intro: formatUnits_total fits_width_half dest: parseUnits_fits)

text \<open>
  What the analysis does with a transaction that reaches the comparison: the \<^verbatim>\<open>catch\<close> block
  logs the TypeError of the call of \<^verbatim>\<open>gt\<close> and returns \<^verbatim>\<open>null\<close>; no request is made.
\<close>

lemma analyzeTransaction_in_filter:
  assumes "tx_to tx = Some to" and "toLowerCase to \<in> set dexAddresses" and "tx_value tx \<noteq> 0"
  shows "analyzeTransaction this (Some tx) w =
           (Inr None,
            [Log error ''Transaction analysis failed:''
               (Some (Thrown (TypeError ''tx.value.gt is not a function'')))], w)"
proof -
  from assms(2) have "to \<noteq> []"
    by (auto simp: dexAddresses_eq toLowerCase_def)
  with assms show ?thesis
    by (simp add: analyzeTransaction_def analyzeTransaction_try_def bigint_gt_def eff_defs)
qed

text \<open>A transaction that does not reach the comparison is dropped without a log entry.\<close>

lemma analyzeTransaction_off_filter:
  assumes "(case tx_to tx of None \<Rightarrow> True | Some to \<Rightarrow> toLowerCase to \<notin> set dexAddresses)
           \<or> tx_value tx = 0"
  shows "analyzeTransaction this (Some tx) w = (Inr None, [], w)"
  using assms
  by (auto simp: analyzeTransaction_def analyzeTransaction_try_def eff_defs
      split: option.splits)

text \<open>No analysis returns an opportunity, and none makes a request.\<close>

lemma analyzeTransaction_None:
  "fst (analyzeTransaction this tx' w) = Inr None \<and> snd (snd (analyzeTransaction this tx' w)) = w"
proof (cases tx')
  case None
  then show ?thesis by (simp add: analyzeTransaction_def eff_defs)
next
  case (Some tx)
  show ?thesis
  proof (cases "(case tx_to tx of None \<Rightarrow> True | Some to \<Rightarrow> toLowerCase to \<notin> set dexAddresses)
                \<or> tx_value tx = 0")
    case True
    from analyzeTransaction_off_filter [OF this, of this w] Some show ?thesis by simp
  next
    case False
    then obtain to where "tx_to tx = Some to" "toLowerCase to \<in> set dexAddresses" "tx_value tx \<noteq> 0"
      by (auto split: option.splits)
    from analyzeTransaction_in_filter [OF this, of this w] Some show ?thesis by simp
  qed
qed

lemma analyzeTransaction_never_throws: "fst (analyzeTransaction this tx' w) \<noteq> Inl e"
  by (auto simp: analyzeTransaction_def eff_defs split: prod.splits sum.splits option.splits)

lemma createSandwichBundle_never_throws: "fst (createSandwichBundle this opp w) \<noteq> Inl e"
  by (auto simp: createSandwichBundle_def eff_defs split: prod.splits sum.splits)

lemma scan_loop_keeps:
  "scan_loop this raws acc w = ((e, opps), logs, w') \<Longrightarrow> opps = acc"
proof (induction raws arbitrary: acc w logs)
  case Nil
  then show ?case by simp
next
  case (Cons txData rest)
  show ?case
  proof (cases "formatter_transactionResponse (provider this) txData")
    case (Inl err)
    with Cons.prems show ?thesis by simp
  next
    case (Inr tx)
    obtain l1 w1 where an: "analyzeTransaction this (Some tx) w = (Inr None, l1, w1)"
      using analyzeTransaction_None [of this "Some tx" w]
      by (cases "analyzeTransaction this (Some tx) w") auto
    obtain l2 where "scan_loop this rest acc w1 = ((e, opps), l2, w')"
      using Cons.prems Inr an by (auto split: prod.splits)
    from Cons.IH [OF this] show ?thesis .
  qed
qed

text \<open>The scan returns the empty array, whatever the node serves.\<close>

lemma scanMEVOpportunities_empty: "fst (scanMEVOpportunities this w) = Inr []"
  by (auto simp: scanMEVOpportunities_def
      split: prod.splits sum.splits option.splits dest: scan_loop_keeps)

text \<open>
  The conversion of the raw transaction is a statement of the loop body with no
  \<^verbatim>\<open>try\<close> block of its own: when the formatter throws, the loop ends with the array as
  it is, the remaining candidates are not looked at, and the scan logs the error.
\<close>

lemma formatter_failure_ends_the_loop:
  assumes "formatter_transactionResponse (provider this) txData = Inl e"
  shows "scan_loop this (txData # rest) opportunities w = ((Some e, opportunities), [], w)"
  using assms by simp

text \<open>
  A throw inside the analysis is caught by the \<^verbatim>\<open>try\<close> block of \<open>analyzeTransaction\<close>: the
  loop goes on with the remaining candidates.
\<close>

lemma analysis_failure_is_skipped:
  assumes "formatter_transactionResponse (provider this) txData = Inr tx"
  shows "scan_loop this (txData # rest) opportunities w
           = (fst (scan_loop this rest opportunities w),
              fst (snd (analyzeTransaction this (Some tx) w))
                @ fst (snd (scan_loop this rest opportunities w)),
              snd (snd (scan_loop this rest opportunities w)))"
proof -
  obtain l1 where "analyzeTransaction this (Some tx) w = (Inr None, l1, w)"
    using analyzeTransaction_None [of this "Some tx" w]
    by (cases "analyzeTransaction this (Some tx) w") auto
  with assms show ?thesis
    by (simp split: prod.splits)
qed


section \<open>Evaluations on the concrete node\<close>

lemma demo_fee_read: "getFeeData (provider demo_executor) 7 = (Inr demo_feeData, 8)"
  by (simp add: demo_executor_def demo_provider_def)


lemma demo_execute:
  "executeBundle demo_executor demo_bundle 8 =
     (Inr False,
      [Log info ''Submitting bundle for block 101...'' None,
       Log error ''Bundle execution failed:''
         (Some (Thrown (TypeError ''Cannot use in operator on a non-object'')))], 10)"
  by code_simp

lemma demo_execute_rejected:
  "executeBundle rejecting_executor demo_bundle 8 =
     (Inr False,
      [Log info ''Submitting bundle for block 101...'' None,
       Log error ''Bundle execution failed:''
         (Some (Thrown (TypeError ''Cannot use in operator on a non-object'')))], 10)"
  by code_simp

lemma demo_build_v3:
  "createSandwichBundle demo_executor demo_opportunity_v3 5 =
     (Inr (Some demo_bundle_v3),
      [Log info ''Calculated Net Profit: 0.1 ETH. Tipping: 0.05 ETH.'' None], 8)"
  by code_simp

section \<open>Priority fee of a bundle\<close>

text \<open>
  C1, refuted as stated. The node suggests a priority fee of 1 gwei, below the default of
  3 gwei. Both transactions of the bundle carry 1 gwei, not the maximum of the two:
  \<^verbatim>\<open>feeData.maxPriorityFeePerGas || ethers.parseUnits("3", "gwei")\<close> takes the default only
  when the suggestion is falsy.
\<close>

theorem priority_fee_below_floor:
  "fst (getFeeData (provider demo_executor) 7) = Inr demo_feeData
   \<and> maxPriorityFeePerGas demo_feeData = Some 1000000000
   \<and> createSandwichBundle demo_executor demo_opportunity 5 =
       (Inr (Some demo_bundle),
        [Log info ''Calculated Net Profit: 0.05 ETH. Tipping: 0.025 ETH.'' None], 8)
   \<and> BundleRequest.transactions demo_bundle = [demo_front, demo_back]
   \<and> req_maxPriorityFeePerGas (request demo_front) = 1000000000
   \<and> req_maxPriorityFeePerGas (request demo_back) = 1000000000
   \<and> req_maxPriorityFeePerGas (request demo_front) \<noteq> max 1000000000 3000000000"
  by (simp add: demo_build demo_fee_read)
     (simp add: demo_feeData_def demo_bundle_def demo_front_def demo_back_def)

text \<open>
  C1, as the code has it. In every bundle that is built, the priority fee of both
  transactions is the priority fee the node suggested when the fee estimate carries one
  that is not zero, and 3 gwei when the suggestion is \<^verbatim>\<open>null\<close> or zero.
\<close>

theorem priority_fee_suggested_or_default:
  assumes "createSandwichBundle this opp w = (Inr (Some b), logs, w')"
  shows "\<exists>fd w2 frontRun backRun.
      getFeeData (provider this) w2 = (Inr fd, w')
    \<and> BundleRequest.transactions b = [frontRun, backRun]
    \<and> req_maxPriorityFeePerGas (request frontRun)
        = (case maxPriorityFeePerGas fd of
             None \<Rightarrow> 3000000000
           | Some suggested \<Rightarrow> if suggested = 0 then 3000000000 else suggested)
    \<and> req_maxPriorityFeePerGas (request backRun) = req_maxPriorityFeePerGas (request frontRun)"
proof -
  from createSandwichBundle_SomeD [OF assms] obtain v h w1 n w2 netProfit tipEther fd prio base sigF sigB
    where fee: "getFeeData (provider this) w2 = (Inr fd, w')"
      and prio: "or_else (maxPriorityFeePerGas fd) (parseUnits ''3'' gwei) = Inr prio"
      and b: "b = \<lparr>BundleRequest.transactions =
             [\<lparr>request = frontRunTx (address (wallet this)) prio (base + bigint_div netProfit 2)
                            (bigint_div v 10) n, signature = sigF\<rparr>,
              \<lparr>request = backRunTx (address (wallet this)) prio (base + bigint_div netProfit 2) n,
               signature = sigB\<rparr>],
            blockNumber = h + 1\<rparr>"
    by blast
  from prio have "prio = (case maxPriorityFeePerGas fd of
             None \<Rightarrow> 3000000000
           | Some suggested \<Rightarrow> if suggested = 0 then 3000000000 else suggested)"
    by (auto simp: or_else_def split: option.splits if_splits)
  with fee b show ?thesis
    by (auto simp: frontRunTx_def backRunTx_def)
qed

text \<open>
  C1 on the concrete node: the bundle for the 1.0 ether target is built, and its priority
  fees are the suggested 1 gwei.
\<close>

theorem priority_fee_suggested_or_default_witness:
  "createSandwichBundle demo_executor demo_opportunity 5 =
     (Inr (Some demo_bundle),
      [Log info ''Calculated Net Profit: 0.05 ETH. Tipping: 0.025 ETH.'' None], 8)
   \<and> (\<exists>fd w2 frontRun backRun.
      getFeeData (provider demo_executor) w2 = (Inr fd, 8)
    \<and> BundleRequest.transactions demo_bundle = [frontRun, backRun]
    \<and> req_maxPriorityFeePerGas (request frontRun)
        = (case maxPriorityFeePerGas fd of
             None \<Rightarrow> 3000000000
           | Some suggested \<Rightarrow> if suggested = 0 then 3000000000 else suggested)
    \<and> req_maxPriorityFeePerGas (request backRun) = req_maxPriorityFeePerGas (request frontRun))"
  using priority_fee_suggested_or_default [OF demo_build] demo_build by simp

section \<open>Submitting a bundle\<close>



section \<open>One failing candidate in a scan\<close>

text \<open>
  C3, at a failing input. The snapshot holds two raw transactions; the formatter throws on
  the first and reads the second. The conversion has no \<^verbatim>\<open>try\<close> block of its own, as the
  analysis has: the throw reaches the \<^verbatim>\<open>catch\<close> block of the scan, which logs
  \<^verbatim>\<open>MEV scanning failed:\<close> and returns. The second candidate is never looked at: the
  log lacks the entry that the loop over it writes.
\<close>

theorem conversion_failure_aborts_the_batch:
  "send (provider malformed_first_executor) ''eth_getBlockByNumber''
       [JString ''pending'', JBool True] 0
     = (Inr (Some \<lparr>pb_transactions = Some [demo_tx_malformed, demo_tx_v2]\<rparr>), 1)
   \<and> formatter_transactionResponse (provider malformed_first_executor) demo_tx_malformed
       = Inl (Error ''invalid hash'')
   \<and> formatter_transactionResponse (provider malformed_first_executor) demo_tx_v2
       = Inr demo_tx_v2
   \<and> scanMEVOpportunities malformed_first_executor 0 =
       (Inr [], [Log error ''MEV scanning failed:'' (Some (Thrown (Error ''invalid hash'')))], 1)
   \<and> scan_loop malformed_first_executor [demo_tx_v2] [] 1 =
       ((None, []), [Log error ''Transaction analysis failed:'' (Some (Thrown (TypeError ''tx.value.gt is not a function'')))], 1)"
proof -
  have a: "send (provider malformed_first_executor) ''eth_getBlockByNumber''
       [JString ''pending'', JBool True] 0
     = (Inr (Some \<lparr>pb_transactions = Some [demo_tx_malformed, demo_tx_v2]\<rparr>), 1)"
    by (simp add: malformed_first_executor_def malformed_first_provider_def)
  have b: "formatter_transactionResponse (provider malformed_first_executor) demo_tx_malformed
       = Inl (Error ''invalid hash'')"
    by (simp add: malformed_first_executor_def malformed_first_provider_def demo_tx_malformed_def)
  have c: "formatter_transactionResponse (provider malformed_first_executor) demo_tx_v2
       = Inr demo_tx_v2"
    by (simp add: malformed_first_executor_def malformed_first_provider_def demo_tx_v2_def)
  have d: "scanMEVOpportunities malformed_first_executor 0 =
       (Inr [], [Log error ''MEV scanning failed:'' (Some (Thrown (Error ''invalid hash'')))], 1)"
    using a b by (simp add: scanMEVOpportunities_def)
  have t: "tx_to demo_tx_v2 = Some ''0x7a250d5630B4cF539739dF2C5dAcb4c659F2488D''"
    "tx_value demo_tx_v2 \<noteq> 0"
    by (simp_all add: demo_tx_v2_def)
  have m: "toLowerCase ''0x7a250d5630B4cF539739dF2C5dAcb4c659F2488D'' \<in> set dexAddresses"
    by (simp add: dexAddresses_eq) (simp add: toLowerCase_def toLowerCaseChar_def)
  have e: "scan_loop malformed_first_executor [demo_tx_v2] [] 1 =
       ((None, []), [Log error ''Transaction analysis failed:'' (Some (Thrown (TypeError ''tx.value.gt is not a function'')))], 1)"
    using c analyzeTransaction_in_filter [OF t(1) m t(2), of malformed_first_executor 1]
    by simp
  from a b c d e show ?thesis
    by (intro conjI)
qed

section \<open>Shape of a bundle\<close>

text \<open>
  C4. Every bundle that \<open>createSandwichBundle\<close> returns has exactly two transactions,
  the front-run first; the front-run's nonce is the transaction count \<open>n\<close> read from the
  node for the wallet's address, the back-run's nonce is \<open>n + 1\<close>; both carry the same
  \<^verbatim>\<open>maxPriorityFeePerGas\<close> and the same \<^verbatim>\<open>maxFeePerGas\<close>; and the bundle's block number
  is the block number \<open>h\<close> read from the node, plus 1.
\<close>

theorem bundle_shape:
  assumes "createSandwichBundle this opp w = (Inr (Some b), logs, w')"
  shows "\<exists>frontRun backRun h w1 n w2.
      BundleRequest.transactions b = [frontRun, backRun]
    \<and> getBlockNumber (provider this) w = (Inr h, w1)
    \<and> getTransactionCount (provider this) (address (wallet this)) w1 = (Inr n, w2)
    \<and> req_nonce (request frontRun) = n
    \<and> req_nonce (request backRun) = n + 1
    \<and> req_maxPriorityFeePerGas (request frontRun) = req_maxPriorityFeePerGas (request backRun)
    \<and> req_maxFeePerGas (request frontRun) = req_maxFeePerGas (request backRun)
    \<and> blockNumber b = h + 1"
  using createSandwichBundle_SomeD [OF assms]
  by (auto simp: frontRunTx_def backRunTx_def)

text \<open>
  C4 on the concrete node: the account's nonce is 7 and the chain head is 100, so the
  nonces are 7 and 8 and the target block is 101.
\<close>

theorem bundle_shape_witness:
  "createSandwichBundle demo_executor demo_opportunity 5 =
     (Inr (Some demo_bundle),
      [Log info ''Calculated Net Profit: 0.05 ETH. Tipping: 0.025 ETH.'' None], 8)
   \<and> (\<exists>frontRun backRun h w1 n w2.
      BundleRequest.transactions demo_bundle = [frontRun, backRun]
    \<and> getBlockNumber (provider demo_executor) 5 = (Inr h, w1)
    \<and> getTransactionCount (provider demo_executor) (address (wallet demo_executor)) w1 = (Inr n, w2)
    \<and> req_nonce (request frontRun) = n
    \<and> req_nonce (request backRun) = n + 1
    \<and> req_maxPriorityFeePerGas (request frontRun) = req_maxPriorityFeePerGas (request backRun)
    \<and> req_maxFeePerGas (request frontRun) = req_maxFeePerGas (request backRun)
    \<and> blockNumber demo_bundle = h + 1)
   \<and> getTransactionCount (provider demo_executor) (address (wallet demo_executor)) 6 = (Inr 7, 7)
   \<and> req_nonce (request demo_front) = 7 \<and> req_nonce (request demo_back) = 8
   \<and> blockNumber demo_bundle = 101"
  using bundle_shape [OF demo_build] demo_build
  by (simp add: demo_executor_def demo_provider_def demo_front_def demo_back_def demo_bundle_def)

section \<open>Estimated profit\<close>

text \<open>
  C5, at a failing input. The pending transaction sends 1.0 ether to the Uniswap V2 router:
  its recipient is on the allow-list and its value is above 0.05 ether. The analysis
  throws at the call \<^verbatim>\<open>tx.value.gt\<close>, the \<^verbatim>\<open>catch\<close> block logs the TypeError, and the
  result is none: there is no opportunity and no profit.
\<close>

theorem estimator_throws_at_the_comparison:
  "tx_to demo_tx_v2 = Some ''0x7a250d5630B4cF539739dF2C5dAcb4c659F2488D''
   \<and> toLowerCase ''0x7a250d5630B4cF539739dF2C5dAcb4c659F2488D'' \<in> set dexAddresses
   \<and> tx_value demo_tx_v2 = 1000000000000000000
   \<and> parseEther ''0.05'' = Inr 50000000000000000
   \<and> analyzeTransaction demo_executor (Some demo_tx_v2) 5 =
       (Inr None, [Log error ''Transaction analysis failed:'' (Some (Thrown (TypeError ''tx.value.gt is not a function'')))], 5)"
proof -
  have t: "tx_to demo_tx_v2 = Some ''0x7a250d5630B4cF539739dF2C5dAcb4c659F2488D''"
    and v: "tx_value demo_tx_v2 = 1000000000000000000"
    by (simp_all add: demo_tx_v2_def)
  have m: "toLowerCase ''0x7a250d5630B4cF539739dF2C5dAcb4c659F2488D'' \<in> set dexAddresses"
    by (simp add: dexAddresses_eq) (simp add: toLowerCase_def toLowerCaseChar_def)
  have n: "tx_value demo_tx_v2 \<noteq> 0"
    by (simp add: v)
  from t m v parseEther_threshold analyzeTransaction_in_filter [OF t m n, of demo_executor 5]
  show ?thesis
    by (intro conjI)
qed

section \<open>Tip and front-run amount\<close>

text \<open>
  C6. For every opportunity from which a bundle is built, the tip is the profit string
  converted to wei and divided by 2 as big integers do; it is what is added to the fee
  ceiling of both transactions, and what the log line reports. The front-run's value is
  the target's value divided by 10. On amounts that are not negative, the division of
  big integers is \<open>div\<close>.
\<close>

theorem tip_and_front_run_amount:
  assumes "createSandwichBundle this opp w = (Inr (Some b), logs, w')"
  shows "\<exists>frontRun backRun v netProfit tipEther fd w2 base.
      BundleRequest.transactions b = [frontRun, backRun]
    \<and> targetTxValue opp = Some v
    \<and> parseEther (profit opp) = Inr netProfit
    \<and> getFeeData (provider this) w2 = (Inr fd, w')
    \<and> or_else (maxFeePerGas fd) (Inr 50000000000) = Inr base
    \<and> req_maxFeePerGas (request frontRun) = base + bigint_div netProfit 2
    \<and> req_maxFeePerGas (request backRun) = base + bigint_div netProfit 2
    \<and> formatEther (bigint_div netProfit 2) = Inr tipEther
    \<and> logs = [Log info (''Calculated Net Profit: '' @ profit opp @ '' ETH. Tipping: ''
                          @ tipEther @ '' ETH.'') None]
    \<and> req_value (request frontRun) = bigint_div v 10
    \<and> (0 \<le> netProfit \<longrightarrow> bigint_div netProfit 2 = netProfit div 2)
    \<and> (0 \<le> v \<longrightarrow> bigint_div v 10 = v div 10)"
proof -
  from createSandwichBundle_SomeD [OF assms] obtain v h w1 n w2 netProfit tipEther fd prio base sigF sigB
    where v: "targetTxValue opp = Some v"
      and profit: "parseEther (profit opp) = Inr netProfit"
      and tip: "formatEther (bigint_div netProfit 2) = Inr tipEther"
      and fee: "getFeeData (provider this) w2 = (Inr fd, w')"
      and base: "or_else (maxFeePerGas fd) (parseUnits ''50'' gwei) = Inr base"
      and b: "b = \<lparr>BundleRequest.transactions =
             [\<lparr>request = frontRunTx (address (wallet this)) prio (base + bigint_div netProfit 2)
                            (bigint_div v 10) n, signature = sigF\<rparr>,
              \<lparr>request = backRunTx (address (wallet this)) prio (base + bigint_div netProfit 2) n,
               signature = sigB\<rparr>],
            blockNumber = h + 1\<rparr>"
      and logs: "logs = [Log info (''Calculated Net Profit: '' @ profit opp @ '' ETH. Tipping: ''
                          @ tipEther @ '' ETH.'') None]"
    by blast
  let ?frontRun = "\<lparr>request = frontRunTx (address (wallet this)) prio (base + bigint_div netProfit 2)
                            (bigint_div v 10) n, signature = sigF\<rparr>"
  let ?backRun = "\<lparr>request = backRunTx (address (wallet this)) prio (base + bigint_div netProfit 2) n,
               signature = sigB\<rparr>"
  have "BundleRequest.transactions b = [?frontRun, ?backRun]"
    and "req_maxFeePerGas (request ?frontRun) = base + bigint_div netProfit 2"
    and "req_maxFeePerGas (request ?backRun) = base + bigint_div netProfit 2"
    and "req_value (request ?frontRun) = bigint_div v 10"
    and "0 \<le> netProfit \<longrightarrow> bigint_div netProfit 2 = netProfit div 2"
    and "0 \<le> v \<longrightarrow> bigint_div v 10 = v div 10"
    and "or_else (maxFeePerGas fd) (Inr 50000000000) = Inr base"
    using b base by (simp_all add: frontRunTx_def backRunTx_def bigint_div_nonneg)
  with v profit tip fee logs show ?thesis
    by blast
qed

text \<open>
  C6 on the concrete node: the opportunity with a target value of 1.0 ether and the profit
  0.05 gives the tip 0.025 and a front-run value of 0.1 ether.
\<close>

theorem tip_and_front_run_amount_witness:
  "targetTxValue demo_opportunity = Some 1000000000000000000
   \<and> profit demo_opportunity = ''0.05''
   \<and> createSandwichBundle demo_executor demo_opportunity 5 =
       (Inr (Some demo_bundle),
        [Log info ''Calculated Net Profit: 0.05 ETH. Tipping: 0.025 ETH.'' None], 8)
   \<and> (\<exists>frontRun backRun v netProfit tipEther fd w2 base.
      BundleRequest.transactions demo_bundle = [frontRun, backRun]
    \<and> targetTxValue demo_opportunity = Some v
    \<and> parseEther (profit demo_opportunity) = Inr netProfit
    \<and> getFeeData (provider demo_executor) w2 = (Inr fd, 8)
    \<and> or_else (maxFeePerGas fd) (Inr 50000000000) = Inr base
    \<and> req_maxFeePerGas (request frontRun) = base + bigint_div netProfit 2
    \<and> req_maxFeePerGas (request backRun) = base + bigint_div netProfit 2
    \<and> formatEther (bigint_div netProfit 2) = Inr tipEther
    \<and> req_value (request frontRun) = bigint_div v 10)
   \<and> parseEther ''0.05'' = Inr 50000000000000000
   \<and> bigint_div 50000000000000000 2 = 25000000000000000
   \<and> formatEther 25000000000000000 = Inr ''0.025''
   \<and> req_value (request demo_front) = 100000000000000000
   \<and> formatEther 100000000000000000 = Inr ''0.1''
   \<and> req_maxFeePerGas (request demo_front) = 40000000000 + 25000000000000000"
proof -
  have fe: "formatEther 25000000000000000 = Inr ''0.025''" "formatEther 100000000000000000 = Inr ''0.1''"
    by code_simp+
  have bd: "bigint_div 50000000000000000 2 = 25000000000000000"
    by (simp add: bigint_div_def)
  from tip_and_front_run_amount [OF demo_build] obtain frontRun backRun v netProfit tipEther fd w2 base
    where "BundleRequest.transactions demo_bundle = [frontRun, backRun]
    \<and> targetTxValue demo_opportunity = Some v
    \<and> parseEther (profit demo_opportunity) = Inr netProfit
    \<and> getFeeData (provider demo_executor) w2 = (Inr fd, 8)
    \<and> or_else (maxFeePerGas fd) (Inr 50000000000) = Inr base
    \<and> req_maxFeePerGas (request frontRun) = base + bigint_div netProfit 2
    \<and> req_maxFeePerGas (request backRun) = base + bigint_div netProfit 2
    \<and> formatEther (bigint_div netProfit 2) = Inr tipEther
    \<and> req_value (request frontRun) = bigint_div v 10"
    by blast
  then have ex: "\<exists>frontRun backRun v netProfit tipEther fd w2 base.
      BundleRequest.transactions demo_bundle = [frontRun, backRun]
    \<and> targetTxValue demo_opportunity = Some v
    \<and> parseEther (profit demo_opportunity) = Inr netProfit
    \<and> getFeeData (provider demo_executor) w2 = (Inr fd, 8)
    \<and> or_else (maxFeePerGas fd) (Inr 50000000000) = Inr base
    \<and> req_maxFeePerGas (request frontRun) = base + bigint_div netProfit 2
    \<and> req_maxFeePerGas (request backRun) = base + bigint_div netProfit 2
    \<and> formatEther (bigint_div netProfit 2) = Inr tipEther
    \<and> req_value (request frontRun) = bigint_div v 10"
    by blast
  have vals: "targetTxValue demo_opportunity = Some 1000000000000000000"
    "profit demo_opportunity = ''0.05''"
    "req_value (request demo_front) = 100000000000000000"
    "req_maxFeePerGas (request demo_front) = 40000000000 + 25000000000000000"
    by (simp_all add: demo_opportunity_def demo_front_def)
  from ex vals fe bd demo_build parseEther_threshold show ?thesis
    by (intro conjI)
qed

section \<open>What the scanner leaves out\<close>

text \<open>
  C7. The analysis of a pending transaction that has no recipient, or whose recipient in
  lower case is not among the allow-listed addresses in lower case, or whose value is at
  most 0.05 ether, yields none and makes no request; with no recipient or a recipient off
  the allow-list it writes no log entry either. A scan returns no opportunity.
\<close>

theorem off_filter_transaction_yields_none:
  "((case tx_to tx of None \<Rightarrow> True | Some to \<Rightarrow> toLowerCase to \<notin> set dexAddresses)
      \<or> tx_value tx \<le> 50000000000000000
     \<longrightarrow> fst (analyzeTransaction this (Some tx) w) = Inr None
         \<and> snd (snd (analyzeTransaction this (Some tx) w)) = w)
   \<and> ((case tx_to tx of None \<Rightarrow> True | Some to \<Rightarrow> toLowerCase to \<notin> set dexAddresses)
     \<longrightarrow> analyzeTransaction this (Some tx) w = (Inr None, [], w))
   \<and> fst (scanMEVOpportunities this w0) = Inr []"
proof (intro conjI impI)
  show "fst (analyzeTransaction this (Some tx) w) = Inr None"
    and "snd (snd (analyzeTransaction this (Some tx) w)) = w"
    using analyzeTransaction_None [of this "Some tx" w] by simp_all
next
  assume "case tx_to tx of None \<Rightarrow> True | Some to \<Rightarrow> toLowerCase to \<notin> set dexAddresses"
  then show "analyzeTransaction this (Some tx) w = (Inr None, [], w)"
    by (simp add: analyzeTransaction_off_filter)
next
  show "fst (scanMEVOpportunities this w0) = Inr []"
    by (rule scanMEVOpportunities_empty)
qed

text \<open>
  C7 on the concrete node: 0.04 ether to the router and 32 ether to another contract give
  no opportunity, and the scan returns none.
\<close>

theorem off_filter_transaction_yields_none_witness:
  "tx_value demo_tx_small \<le> 50000000000000000
   \<and> fst (analyzeTransaction demo_executor (Some demo_tx_small) 5) = Inr None
   \<and> snd (snd (analyzeTransaction demo_executor (Some demo_tx_small) 5)) = 5
   \<and> tx_to demo_tx_other = Some ''0x00000000219ab540356cBB839Cbe05303d7705Fa''
   \<and> toLowerCase ''0x00000000219ab540356cBB839Cbe05303d7705Fa'' \<notin> set dexAddresses
   \<and> analyzeTransaction demo_executor (Some demo_tx_other) 5 = (Inr None, [], 5)
   \<and> fst (scanMEVOpportunities demo_executor 5) = Inr []"
proof -
  have small: "tx_value demo_tx_small \<le> 50000000000000000"
    by (simp add: demo_tx_small_def)
  have other: "tx_to demo_tx_other = Some ''0x00000000219ab540356cBB839Cbe05303d7705Fa''"
    by (simp add: demo_tx_other_def)
  have off: "toLowerCase ''0x00000000219ab540356cBB839Cbe05303d7705Fa'' \<notin> set dexAddresses"
    by (simp add: dexAddresses_eq) (simp add: toLowerCase_def toLowerCaseChar_def)
  have a: "fst (analyzeTransaction demo_executor (Some demo_tx_small) 5) = Inr None"
    "snd (snd (analyzeTransaction demo_executor (Some demo_tx_small) 5)) = 5"
    using off_filter_transaction_yields_none [of demo_tx_small demo_executor 5] small by blast+
  have b: "analyzeTransaction demo_executor (Some demo_tx_other) 5 = (Inr None, [], 5)"
    using off_filter_transaction_yields_none [of demo_tx_other demo_executor 5] other off by simp
  have c: "fst (scanMEVOpportunities demo_executor 5) = Inr []"
    using off_filter_transaction_yields_none [of demo_tx_small demo_executor 5 5] by blast
  from small a other off b c show ?thesis
    by (intro conjI)
qed

section \<open>Failures of bundle construction\<close>

text \<open>
  C8. With an absent \<^verbatim>\<open>targetTxValue\<close>, \<open>createSandwichBundle\<close> returns none, writes the
  one error entry and leaves the world as it was: no request was made. Whatever the body
  of its \<^verbatim>\<open>try\<close> block throws is logged and turned into none. It never throws, and a
  bundle comes out of it only when the block number, the nonce, the profit and the fee
  estimate were obtained and both transactions were signed. Its outcome does not depend
  on the relay: it submits nothing.
\<close>

theorem createSandwichBundle_fails_closed:
  "(targetTxValue opp = None
      \<longrightarrow> createSandwichBundle this opp w
            = (Inr None,
               [Log error ''Cannot create bundle: Missing target transaction value.'' None], w))
   \<and> (\<forall>e logs w1. createSandwichBundle_try this opp w = (Inl e, logs, w1)
      \<longrightarrow> createSandwichBundle this opp w
            = (Inr None,
               logs @ [Log error ''Failed to create dynamic sandwich bundle:'' (Some (Thrown e))],
               w1))
   \<and> (\<exists>r logs w'. createSandwichBundle this opp w = (Inr r, logs, w')
        \<and> (r = None
           \<or> (\<exists>h w1 n w2 netProfit fd frontRun backRun.
                 getBlockNumber (provider this) w = (Inr h, w1)
               \<and> getTransactionCount (provider this) (address (wallet this)) w1 = (Inr n, w2)
               \<and> parseEther (profit opp) = Inr netProfit
               \<and> getFeeData (provider this) w2 = (Inr fd, w')
               \<and> signTransaction (wallet this) (request frontRun) = Inr frontRun
               \<and> signTransaction (wallet this) (request backRun) = Inr backRun
               \<and> r = Some \<lparr>BundleRequest.transactions = [frontRun, backRun],
                            blockNumber = h + 1\<rparr>)))
   \<and> createSandwichBundle (this\<lparr>flashbotsProvider := relay\<rparr>) opp w
       = createSandwichBundle this opp w"
proof (intro conjI impI allI)
  assume "targetTxValue opp = None"
  then show "createSandwichBundle this opp w
            = (Inr None,
               [Log error ''Cannot create bundle: Missing target transaction value.'' None], w)"
    by (simp add: createSandwichBundle_def createSandwichBundle_try_def eff_defs)
next
  fix e logs w1
  assume "createSandwichBundle_try this opp w = (Inl e, logs, w1)"
  then show "createSandwichBundle this opp w
            = (Inr None,
               logs @ [Log error ''Failed to create dynamic sandwich bundle:'' (Some (Thrown e))],
               w1)"
    by (simp add: createSandwichBundle_def eff_defs)
next
  obtain r logs w' where run: "createSandwichBundle this opp w = (r, logs, w')"
    by (cases "createSandwichBundle this opp w") auto
  with createSandwichBundle_never_throws [of this opp w] obtain x where r: "r = Inr x"
    by (cases r) auto
  show "\<exists>r logs w'. createSandwichBundle this opp w = (Inr r, logs, w')
        \<and> (r = None
           \<or> (\<exists>h w1 n w2 netProfit fd frontRun backRun.
                 getBlockNumber (provider this) w = (Inr h, w1)
               \<and> getTransactionCount (provider this) (address (wallet this)) w1 = (Inr n, w2)
               \<and> parseEther (profit opp) = Inr netProfit
               \<and> getFeeData (provider this) w2 = (Inr fd, w')
               \<and> signTransaction (wallet this) (request frontRun) = Inr frontRun
               \<and> signTransaction (wallet this) (request backRun) = Inr backRun
               \<and> r = Some \<lparr>BundleRequest.transactions = [frontRun, backRun],
                            blockNumber = h + 1\<rparr>))"
  proof (cases x)
    case None
    with run r show ?thesis by simp
  next
    case (Some b)
    with run r have built: "createSandwichBundle this opp w = (Inr (Some b), logs, w')"
      by simp
    from createSandwichBundle_SomeD [OF built]
    obtain v h w1 n w2 netProfit tipEther fd prio base sigF sigB
      where steps: "getBlockNumber (provider this) w = (Inr h, w1)"
        "getTransactionCount (provider this) (address (wallet this)) w1 = (Inr n, w2)"
        "parseEther (profit opp) = Inr netProfit"
        "getFeeData (provider this) w2 = (Inr fd, w')"
      and sigF: "sign (wallet this) (frontRunTx (address (wallet this)) prio
                   (base + bigint_div netProfit 2) (bigint_div v 10) n) = Inr sigF"
      and sigB: "sign (wallet this) (backRunTx (address (wallet this)) prio
                   (base + bigint_div netProfit 2) n) = Inr sigB"
      and b: "b = \<lparr>BundleRequest.transactions =
             [\<lparr>request = frontRunTx (address (wallet this)) prio (base + bigint_div netProfit 2)
                            (bigint_div v 10) n, signature = sigF\<rparr>,
              \<lparr>request = backRunTx (address (wallet this)) prio (base + bigint_div netProfit 2) n,
               signature = sigB\<rparr>],
            blockNumber = h + 1\<rparr>"
      by blast
    let ?frontRun = "\<lparr>request = frontRunTx (address (wallet this)) prio (base + bigint_div netProfit 2)
                            (bigint_div v 10) n, signature = sigF\<rparr>"
    let ?backRun = "\<lparr>request = backRunTx (address (wallet this)) prio (base + bigint_div netProfit 2) n,
               signature = sigB\<rparr>"
    have "signTransaction (wallet this) (request ?frontRun) = Inr ?frontRun"
      and "signTransaction (wallet this) (request ?backRun) = Inr ?backRun"
      using sigF sigB by (simp_all add: signTransaction_def)
    with steps b built show ?thesis by blast
  qed
next
  show "createSandwichBundle (this\<lparr>flashbotsProvider := relay\<rparr>) opp w
       = createSandwichBundle this opp w"
    by (simp add: createSandwichBundle_def createSandwichBundle_try_def split: option.splits)
qed

text \<open>
  C8 on the concrete node: an opportunity without a target value, and a wallet that
  refuses to sign the back-run after the front-run has been signed.
\<close>

theorem createSandwichBundle_fails_closed_witness:
  "targetTxValue unsized_opportunity = None
   \<and> createSandwichBundle demo_executor unsized_opportunity 5
       = (Inr None, [Log error ''Cannot create bundle: Missing target transaction value.'' None], 5)
   \<and> createSandwichBundle_try refusing_executor demo_opportunity 5
       = (Inl (Error ''signing refused''),
          [Log info ''Calculated Net Profit: 0.05 ETH. Tipping: 0.025 ETH.'' None], 8)
   \<and> createSandwichBundle refusing_executor demo_opportunity 5
       = (Inr None,
          [Log info ''Calculated Net Profit: 0.05 ETH. Tipping: 0.025 ETH.'' None]
            @ [Log error ''Failed to create dynamic sandwich bundle:''
                 (Some (Thrown (Error ''signing refused'')))], 8)"
proof -
  have absent: "targetTxValue unsized_opportunity = None"
    by (simp add: unsized_opportunity_def)
  have throws: "createSandwichBundle_try refusing_executor demo_opportunity 5
       = (Inl (Error ''signing refused''),
          [Log info ''Calculated Net Profit: 0.05 ETH. Tipping: 0.025 ETH.'' None], 8)"
    by code_simp
  note closed = createSandwichBundle_fails_closed [of unsized_opportunity demo_executor 5]
  note closed' = createSandwichBundle_fails_closed [of demo_opportunity refusing_executor 5]
  have a: "createSandwichBundle demo_executor unsized_opportunity 5
       = (Inr None, [Log error ''Cannot create bundle: Missing target transaction value.'' None], 5)"
    using closed absent by blast
  have b: "createSandwichBundle refusing_executor demo_opportunity 5
       = (Inr None,
          [Log info ''Calculated Net Profit: 0.05 ETH. Tipping: 0.025 ETH.'' None]
            @ [Log error ''Failed to create dynamic sandwich bundle:''
                 (Some (Thrown (Error ''signing refused'')))], 8)"
    using closed' throws by blast
  from absent a throws b show ?thesis
    by (intro conjI)
qed

section \<open>Opportunities of the scanner\<close>


section \<open>Recipient and payload of a bundle\<close>

text \<open>
  C10. In every bundle that is built, both transactions are sent to \<open>UNISWAP_V2_ROUTER\<close>
  with the placeholder payload, and the back-run's value is 0. The builder does not read
  the opportunity's \<^verbatim>\<open>transactions\<close>: the router the target was sent to changes nothing.
\<close>

theorem bundle_targets_v2_router:
  assumes "createSandwichBundle this opp w = (Inr (Some b), logs, w')"
  shows "(\<exists>frontRun backRun.
      BundleRequest.transactions b = [frontRun, backRun]
    \<and> req_to (request frontRun) = UNISWAP_V2_ROUTER
    \<and> req_to (request backRun) = UNISWAP_V2_ROUTER
    \<and> req_data (request frontRun) = placeholderData
    \<and> req_data (request backRun) = placeholderData
    \<and> req_value (request backRun) = 0)
    \<and> createSandwichBundle this (opp\<lparr>MEVOpportunity.transactions := targets\<rparr>) w
        = createSandwichBundle this opp w"
proof
  from createSandwichBundle_SomeD [OF assms]
  show "\<exists>frontRun backRun.
      BundleRequest.transactions b = [frontRun, backRun]
    \<and> req_to (request frontRun) = UNISWAP_V2_ROUTER
    \<and> req_to (request backRun) = UNISWAP_V2_ROUTER
    \<and> req_data (request frontRun) = placeholderData
    \<and> req_data (request backRun) = placeholderData
    \<and> req_value (request backRun) = 0"
    by (auto simp: frontRunTx_def backRunTx_def)
  show "createSandwichBundle this (opp\<lparr>MEVOpportunity.transactions := targets\<rparr>) w
        = createSandwichBundle this opp w"
    by (simp add: createSandwichBundle_def createSandwichBundle_try_def split: option.splits)
qed

text \<open>
  C10 on the concrete node: the target was sent to the Uniswap V3 router, the bundle goes
  to the V2 router.
\<close>

theorem bundle_targets_v2_router_witness:
  "MEVOpportunity.transactions demo_opportunity_v3 = [demo_tx_v3]
   \<and> tx_to demo_tx_v3 = Some ''0xe592427a0aece92de3edee1f18e0157c05861564''
   \<and> createSandwichBundle demo_executor demo_opportunity_v3 5 =
       (Inr (Some demo_bundle_v3),
        [Log info ''Calculated Net Profit: 0.1 ETH. Tipping: 0.05 ETH.'' None], 8)
   \<and> (\<exists>frontRun backRun.
      BundleRequest.transactions demo_bundle_v3 = [frontRun, backRun]
    \<and> req_to (request frontRun) = ''0x7a250d5630B4cF539739dF2C5dAcb4c659F2488D''
    \<and> req_to (request backRun) = ''0x7a250d5630B4cF539739dF2C5dAcb4c659F2488D''
    \<and> req_data (request frontRun)
        = ''0x1234567800000000000000000000000000000000000000000000000000000000''
    \<and> req_data (request backRun)
        = ''0x1234567800000000000000000000000000000000000000000000000000000000''
    \<and> req_value (request backRun) = 0)"
proof -
  have t: "MEVOpportunity.transactions demo_opportunity_v3 = [demo_tx_v3]"
    "tx_to demo_tx_v3 = Some ''0xe592427a0aece92de3edee1f18e0157c05861564''"
    by (simp_all add: demo_opportunity_v3_def demo_tx_v3_def)
  from bundle_targets_v2_router [OF demo_build_v3] t demo_build_v3 show ?thesis
    by (simp add: UNISWAP_V2_ROUTER_def placeholderData_eq)
qed

end
